theory Spec2Isabelle
  imports Complex_Main
begin

section \<open>JavaScript values and built-ins used by the service\<close>

text \<open>
  A \<^verbatim>\<open>Date\<close> is its \<^verbatim>\<open>getTime()\<close>: integer milliseconds since the epoch.
  Strings are byte strings (UTF-8); the non-ASCII literals of the source are
  written out byte by byte.
\<close>

type_synonym date = int

text \<open>The time values a \<^verbatim>\<open>Date\<close> can hold: at most 8.64e15 ms either side of the epoch.\<close>

definition valid_date :: "date \<Rightarrow> bool" where
  "valid_date d = (\<bar>d\<bar> \<le> 8640000000000000)"

datatype js_error = RangeError string | Error string

text \<open>
  JavaScript values as the request body and the JSON envelopes need them.
  Numbers are integers here (the service only ever puts counts into its own
  objects); \<^verbatim>\<open>undefined\<close> is a value of its own, as it is for \<^verbatim>\<open>req.body\<close>.
\<close>

datatype json =
    JUndefined
  | JNull
  | JBool bool
  | JNum int
  | JStr string
  | JArr "json list"
  | JObj "(string \<times> json) list"

text \<open>\<^verbatim>\<open>!x\<close> is \<open>\<not> truthy x\<close>: the falsy values are undefined, null, false, 0 and the empty string.\<close>

fun truthy :: "json \<Rightarrow> bool" where
  "truthy JUndefined = False"
| "truthy JNull = False"
| "truthy (JBool b) = b"
| "truthy (JNum n) = (n \<noteq> 0)"
| "truthy (JStr s) = (s \<noteq> [])"
| "truthy (JArr xs) = True"
| "truthy (JObj ps) = True"

definition digit :: "nat \<Rightarrow> char" where
  "digit n = char_of (48 + n)"

fun digits :: "nat \<Rightarrow> string" where
  "digits n = (if n < 10 then [digit n] else digits (n div 10) @ [digit (n mod 10)])"

declare digits.simps [simp del]

text \<open>\<^verbatim>\<open>Number.prototype.toString\<close> on an integer, as template literals apply it.\<close>

definition toString :: "int \<Rightarrow> string" where
  "toString i = (if i < 0 then CHR ''-'' # digits (nat (- i)) else digits (nat i))"

definition padStart :: "nat \<Rightarrow> char \<Rightarrow> string \<Rightarrow> string" where
  "padStart n c s = replicate (n - length s) c @ s"

definition startsWith :: "string \<Rightarrow> char \<Rightarrow> bool" where
  "startsWith s c = (case s of [] \<Rightarrow> False | x # _ \<Rightarrow> x = c)"

text \<open>\<^verbatim>\<open>s.replace(a, b)\<close> with one-character strings: the first occurrence only.\<close>

fun replace :: "char \<Rightarrow> char \<Rightarrow> string \<Rightarrow> string" where
  "replace a b [] = []"
| "replace a b (x # xs) = (if x = a then b # xs else x # replace a b xs)"

fun join :: "string \<Rightarrow> string list \<Rightarrow> string" where
  "join sep [] = []"
| "join sep [x] = x"
| "join sep (x # y # ys) = x @ sep @ join sep (y # ys)"

subsection \<open>\<^verbatim>\<open>JSON.stringify\<close>\<close>

definition hex_digit :: "nat \<Rightarrow> char" where
  "hex_digit n = (if n < 10 then char_of (48 + n) else char_of (87 + n))"

definition escape_char :: "char \<Rightarrow> string" where
  "escape_char c =
     (let n = (of_char c :: nat) in
      if n = 0x22 then [CHR 0x5C, CHR 0x22]
      else if n = 0x5C then [CHR 0x5C, CHR 0x5C]
      else if n = 8 then [CHR 0x5C, CHR ''b'']
      else if n = 9 then [CHR 0x5C, CHR ''t'']
      else if n = 10 then [CHR 0x5C, CHR ''n'']
      else if n = 12 then [CHR 0x5C, CHR ''f'']
      else if n = 13 then [CHR 0x5C, CHR ''r'']
      else if n < 0x20 then [CHR 0x5C, CHR ''u'', CHR ''0'', CHR ''0'', hex_digit (n div 16), hex_digit (n mod 16)]
      else [c])"

definition quote :: "string \<Rightarrow> string" where
  "quote s = CHR 0x22 # concat (map escape_char s) @ [CHR 0x22]"

text \<open>
  \<open>stringify v\<close> is \<open>None\<close> where \<^verbatim>\<open>JSON.stringify\<close> yields \<^verbatim>\<open>undefined\<close>. A property
  whose value is undefined is left out of an object; an undefined array element
  is written \<^verbatim>\<open>null\<close>.
\<close>

fun stringify :: "json \<Rightarrow> string option"
  and stringify_elements :: "json list \<Rightarrow> string list"
  and stringify_properties :: "(string \<times> json) list \<Rightarrow> string list"
where
  "stringify JUndefined = None"
| "stringify JNull = Some ''null''"
| "stringify (JBool b) = Some (if b then ''true'' else ''false'')"
| "stringify (JNum n) = Some (toString n)"
| "stringify (JStr s) = Some (quote s)"
| "stringify (JArr xs) = Some (''['' @ join '','' (stringify_elements xs) @ '']'')"
| "stringify (JObj ps) = Some (''{'' @ join '','' (stringify_properties ps) @ ''}'')"
| "stringify_elements [] = []"
| "stringify_elements (x # xs) =
     (case stringify x of None \<Rightarrow> ''null'' | Some s \<Rightarrow> s) # stringify_elements xs"
| "stringify_properties [] = []"
| "stringify_properties ((k, v) # ps) =
     (case stringify v of
        None \<Rightarrow> stringify_properties ps
      | Some s \<Rightarrow> (quote k @ '':'' @ s) # stringify_properties ps)"

text \<open>\<^verbatim>\<open>JSON.stringify\<close> of an object literal: always a string.\<close>

definition JSON_stringify :: "(string \<times> json) list \<Rightarrow> string" where
  "JSON_stringify ps = ''{'' @ join '','' (stringify_properties ps) @ ''}''"

subsection \<open>The host: clock, \<^verbatim>\<open>Intl\<close>, \<^verbatim>\<open>Date.parse\<close>, \<^verbatim>\<open>JSON.parse\<close>, \<^verbatim>\<open>process.env\<close>\<close>

text \<open>
  What the runtime supplies is a parameter of every function below. The two
  option objects the source passes to \<^verbatim>\<open>toLocaleString\<close> are the two values of
  \<open>locale_options\<close>.
\<close>

datatype locale_options = TimeZoneOnly | NumericWithZoneName

record host =
  env_TZ :: "string option"
  clock :: "nat \<Rightarrow> date"
  validTimeZone :: "string \<Rightarrow> bool"
  toISOString :: "date \<Rightarrow> string"
  localeText :: "string \<Rightarrow> string \<Rightarrow> locale_options \<Rightarrow> date \<Rightarrow> string"
  Date_parse :: "string \<Rightarrow> date"
  Number_toString :: "rat \<Rightarrow> string"
  JSON_parse :: "string \<Rightarrow> json option"

text \<open>
  \<^verbatim>\<open>date.toLocaleString(locale, {timeZone: tz, ...})\<close> raises a RangeError when
  the runtime does not know the time zone; this is the exception the
  \<^verbatim>\<open>try\<close> of \<^verbatim>\<open>getTimezoneInfo\<close> is there for.
\<close>

definition toLocaleString ::
  "host \<Rightarrow> date \<Rightarrow> string \<Rightarrow> string \<Rightarrow> locale_options \<Rightarrow> js_error + string" where
  "toLocaleString H d locale tz opts =
     (if validTimeZone H tz then Inr (localeText H locale tz opts d)
      else Inl (RangeError (''Invalid time zone specified: '' @ tz)))"

section \<open>The state of the process\<close>

datatype readyState = CONNECTING | OPEN | CLOSING | CLOSED

text \<open>
  A WebSocket of the \<^verbatim>\<open>ws\<close> library, as far as the service uses it: its
  \<^verbatim>\<open>readyState\<close>, and \<^verbatim>\<open>send\<close>. Every call of \<^verbatim>\<open>send\<close> is recorded in
  \<open>attempts\<close>, the frames that reach the peer in \<open>delivered\<close>. \<open>writeFails\<close>
  says that writes to the underlying transport of an OPEN socket fail; the
  library reports such a failure later, by an error event, and \<^verbatim>\<open>send\<close>
  itself returns.
\<close>

record socket =
  readyState :: readyState
  writeFails :: bool
  attempts :: "string list"
  delivered :: "string list"

type_synonym conn = nat

datatype logline =
    LogNewConnection string
  | LogClose
  | LogError
  | LogPing
  | LogText string
  | LogJson json
  | LogNonJson string
  | LogBroadcast nat json
  | LogSendmsgError js_error

text \<open>
  \<open>clients\<close> is the \<^verbatim>\<open>Set\<close> of line 26 in insertion order; \<open>ticks\<close> counts the
  readings of the system clock (\<^verbatim>\<open>new Date()\<close>) made so far.
\<close>

record world =
  ticks :: nat
  clients :: "conn list"
  sockets :: "conn \<Rightarrow> socket"
  console :: "logline list"

definition new_Date :: "host \<Rightarrow> world \<Rightarrow> date \<times> world" where
  "new_Date H w = (clock H (ticks w), w\<lparr>ticks := Suc (ticks w)\<rparr>)"

definition console_log :: "logline \<Rightarrow> world \<Rightarrow> world" where
  "console_log l w = w\<lparr>console := console w @ [l]\<rparr>"

definition Set_add :: "'a \<Rightarrow> 'a list \<Rightarrow> 'a list" where
  "Set_add x xs = (if x \<in> set xs then xs else xs @ [x])"

definition Set_delete :: "'a \<Rightarrow> 'a list \<Rightarrow> 'a list" where
  "Set_delete x xs = removeAll x xs"

text \<open>
  \<^verbatim>\<open>send(data)\<close> of \<^verbatim>\<open>ws\<close>, called without a callback: it raises while the
  socket is CONNECTING, drops the frame while the socket is CLOSING or CLOSED,
  and hands it to the transport when the socket is OPEN.
\<close>

definition ws_send :: "conn \<Rightarrow> string \<Rightarrow> world \<Rightarrow> (js_error + unit) \<times> world" where
  "ws_send c frame w =
     (let s = sockets w c;
          s' = s\<lparr>attempts := attempts s @ [frame]\<rparr>
      in if readyState s = CONNECTING
         then (Inl (Error ''WebSocket is not open: readyState 0 (CONNECTING)''),
               w\<lparr>sockets := (sockets w)(c := s')\<rparr>)
         else if readyState s \<noteq> OPEN
         then (Inr (), w\<lparr>sockets := (sockets w)(c := s')\<rparr>)
         else (Inr (),
               w\<lparr>sockets := (sockets w)
                    (c := s'\<lparr>delivered := delivered s @ (if writeFails s then [] else [frame])\<rparr>)\<rparr>))"

section \<open>src/utils/timeUtils.js\<close>

definition DEFAULT_TIMEZONE :: "host \<Rightarrow> string" where
  "DEFAULT_TIMEZONE H =
     (case env_TZ H of
        None \<Rightarrow> ''Asia/Shanghai''
      | Some z \<Rightarrow> if z = [] then ''Asia/Shanghai'' else z)"

definition getCurrentTime :: "host \<Rightarrow> world \<Rightarrow> date \<times> world" where
  "getCurrentTime H w = new_Date H w"

definition formatToISO :: "host \<Rightarrow> date \<Rightarrow> string \<Rightarrow> string" where
  "formatToISO H d tz = toISOString H d"

definition formatToLocal :: "host \<Rightarrow> date \<Rightarrow> string \<Rightarrow> js_error + string" where
  "formatToLocal H d tz = toLocaleString H d ''zh-CN'' tz NumericWithZoneName"

definition formatCompact :: "host \<Rightarrow> date \<Rightarrow> string \<Rightarrow> js_error + string" where
  "formatCompact H d tz =
     (case toLocaleString H d ''sv-SE'' tz TimeZoneOnly of
        Inl e \<Rightarrow> Inl e
      | Inr s \<Rightarrow> Inr (replace CHR ''T'' CHR '' '' s))"

text \<open>
  \<^verbatim>\<open>endTime - startTime\<close> subtracts the time values of two Dates as IEEE
  doubles. Both are integers of magnitude at most 8.64e15, so the exact
  difference lies within 2 ^ 54. Up to 2 ^ 53 in magnitude it is a double and
  the result is exact. Beyond, the doubles are the even integers: an odd
  difference is rounded to the neighbour with the even significand, which is
  the multiple of 4.
\<close>

definition date_diff :: "date \<Rightarrow> date \<Rightarrow> int" where
  "date_diff endTime startTime =
     (let d = endTime - startTime in
      if \<bar>d\<bar> \<le> 9007199254740992 then d
      else if even d then d
      else if 4 dvd d + 1 then d + 1 else d - 1)"

text \<open>
  \<^verbatim>\<open>a % b\<close> truncates towards zero (the result has the sign of \<open>a\<close>) and
  is exact on doubles. \<^verbatim>\<open>Math.floor(a / b)\<close> for a positive \<open>b\<close> is \<open>a div b\<close>:
  for the differences of two Dates and the divisors used here the rounded
  quotient of a non-multiple stays below the next integer.
\<close>

definition js_rem :: "int \<Rightarrow> int \<Rightarrow> int" where
  "js_rem a b = sgn a * (\<bar>a\<bar> mod \<bar>b\<bar>)"

definition txt_days :: string where
  "txt_days = [CHR 0xE5, CHR 0xA4, CHR 0xA9]"

definition txt_hours :: string where
  "txt_hours = [CHR 0xE5, CHR 0xB0, CHR 0x8F, CHR 0xE6, CHR 0x97, CHR 0xB6]"

definition txt_minutes :: string where
  "txt_minutes = [CHR 0xE5, CHR 0x88, CHR 0x86, CHR 0xE9, CHR 0x92, CHR 0x9F]"

definition txt_seconds :: string where
  "txt_seconds = [CHR 0xE7, CHR 0xA7, CHR 0x92]"

definition formatHumanReadableUptime :: "int \<Rightarrow> int \<Rightarrow> int \<Rightarrow> int \<Rightarrow> string" where
  "formatHumanReadableUptime d h m s =
     join '' ''
       ((if d > 0 then [toString d @ txt_days] else [])
        @ (if h > 0 \<or> d > 0 then [toString h @ txt_hours] else [])
        @ (if m > 0 \<or> h > 0 \<or> d > 0 then [toString m @ txt_minutes] else [])
        @ [toString s @ txt_seconds])"

record uptime =
  total_milliseconds :: int
  total_seconds :: int
  days :: int
  hours :: int
  minutes :: int
  seconds :: int
  formatted :: string
  formatted_en :: string
  human_readable :: string

definition calculateUptime :: "date \<Rightarrow> date \<Rightarrow> uptime" where
  "calculateUptime startTime endTime =
     (let up = date_diff endTime startTime;
          d = up div (1000 * 60 * 60 * 24);
          h = js_rem up (1000 * 60 * 60 * 24) div (1000 * 60 * 60);
          m = js_rem up (1000 * 60 * 60) div (1000 * 60);
          s = js_rem up (1000 * 60) div 1000
      in \<lparr> total_milliseconds = up,
           total_seconds = up div 1000,
           days = d, hours = h, minutes = m, seconds = s,
           formatted = toString d @ txt_days @ '' '' @ toString h @ txt_hours @ '' ''
                       @ toString m @ txt_minutes @ '' '' @ toString s @ txt_seconds,
           formatted_en = toString d @ ''d '' @ toString h @ ''h ''
                          @ toString m @ ''m '' @ toString s @ ''s'',
           human_readable = formatHumanReadableUptime d h m s \<rparr>)"

text \<open>
  \<^verbatim>\<open>getTimezoneOffset\<close>: one clock reading, two locale strings parsed back into
  dates, their difference in minutes. \<open>Date_parse\<close> yields a time for every
  string (the runtime parses its own en-US rendering), and the quotient is
  exact here; the source computes it in floating point.
\<close>

definition getTimezoneOffset :: "host \<Rightarrow> string \<Rightarrow> world \<Rightarrow> (js_error + rat) \<times> world" where
  "getTimezoneOffset H tz w =
     (let (now, w1) = new_Date H w in
      case toLocaleString H now ''en-US'' ''UTC'' TimeZoneOnly of
        Inl e \<Rightarrow> (Inl e, w1)
      | Inr u \<Rightarrow>
          (case toLocaleString H now ''en-US'' tz TimeZoneOnly of
             Inl e \<Rightarrow> (Inl e, w1)
           | Inr l \<Rightarrow>
               (Inr (of_int (Date_parse H l - Date_parse H u) / of_int (1000 * 60)), w1)))"

definition formatTimezoneOffset :: "host \<Rightarrow> rat \<Rightarrow> string" where
  "formatTimezoneOffset H offsetMinutes =
     (let sign = (if offsetMinutes \<ge> 0 then ''+'' else ''-'');
          absOffset = \<bar>offsetMinutes\<bar>;
          h = \<lfloor>absOffset / 60\<rfloor>;
          m = absOffset - 60 * of_int h
      in sign @ padStart 2 CHR ''0'' (toString h) @ '':''
         @ padStart 2 CHR ''0'' (Number_toString H m))"

record tzinfo =
  tz_timezone :: string
  tz_offset :: rat
  tz_offsetString :: string
  tz_localTime :: string
  tz_utcTime :: string
  tz_error :: "string option"

text \<open>
  \<^verbatim>\<open>getTimezoneInfo\<close> (lines 117-141). The three calls of
  \<^verbatim>\<open>getTimezoneOffset\<close> and the call of \<^verbatim>\<open>formatToLocal\<close> stand inside the
  \<^verbatim>\<open>try\<close>; whichever raises first sends control to the \<^verbatim>\<open>catch\<close>, which
  builds the UTC record. The value of the unused local \<^verbatim>\<open>localTime\<close> is not
  kept, its call of \<^verbatim>\<open>getTimezoneOffset\<close> is.
\<close>

definition tz_fallback :: "host \<Rightarrow> date \<Rightarrow> string \<Rightarrow> tzinfo" where
  "tz_fallback H now tz =
     \<lparr> tz_timezone = ''UTC'', tz_offset = 0, tz_offsetString = ''+00:00'',
       tz_localTime = toISOString H now, tz_utcTime = toISOString H now,
       tz_error = Some (''Invalid timezone: '' @ tz) \<rparr>"

definition getTimezoneInfo :: "host \<Rightarrow> string \<Rightarrow> world \<Rightarrow> tzinfo \<times> world" where
  "getTimezoneInfo H tz w =
     (let (now, w0) = new_Date H w in
      case getTimezoneOffset H tz w0 of
        (Inl e, w1) \<Rightarrow> (tz_fallback H now tz, w1)
      | (Inr o1, w1) \<Rightarrow>
          (case getTimezoneOffset H tz w1 of
             (Inl e, w2) \<Rightarrow> (tz_fallback H now tz, w2)
           | (Inr o2, w2) \<Rightarrow>
               (case getTimezoneOffset H tz w2 of
                  (Inl e, w3) \<Rightarrow> (tz_fallback H now tz, w3)
                | (Inr o3, w3) \<Rightarrow>
                    (case formatToLocal H now tz of
                       Inl e \<Rightarrow> (tz_fallback H now tz, w3)
                     | Inr l \<Rightarrow>
                         (\<lparr> tz_timezone = tz, tz_offset = o2,
                            tz_offsetString = formatTimezoneOffset H o3,
                            tz_localTime = l, tz_utcTime = toISOString H now,
                            tz_error = None \<rparr>, w3)))))"

record timestamp =
  iso :: string
  local :: string
  compact :: string
  unix :: int
  milliseconds :: int
  timezone :: tzinfo

text \<open>
  \<^verbatim>\<open>createTimestamp(date, timezone)\<close> (lines 174-183): the properties of the
  object literal are evaluated in order, outside any \<^verbatim>\<open>try\<close>.
\<close>

definition createTimestamp :: "host \<Rightarrow> date \<Rightarrow> string \<Rightarrow> world \<Rightarrow> (js_error + timestamp) \<times> world" where
  "createTimestamp H d tz w =
     (case formatToLocal H d tz of
        Inl e \<Rightarrow> (Inl e, w)
      | Inr l \<Rightarrow>
          (case formatCompact H d tz of
             Inl e \<Rightarrow> (Inl e, w)
           | Inr c \<Rightarrow>
               (let (info, w1) = getTimezoneInfo H tz w in
                (Inr \<lparr> iso = formatToISO H d tz, local = l, compact = c,
                       unix = d div 1000, milliseconds = d, timezone = info \<rparr>, w1))))"

text \<open>\<^verbatim>\<open>createTimestamp()\<close>: both parameters take their defaults.\<close>

definition createTimestamp_now :: "host \<Rightarrow> world \<Rightarrow> (js_error + timestamp) \<times> world" where
  "createTimestamp_now H w =
     (let (d, w1) = new_Date H w in createTimestamp H d (DEFAULT_TIMEZONE H) w1)"

section \<open>src/server.js\<close>

definition txt_connected :: string where
  "txt_connected = [CHR 0xE8, CHR 0xBF, CHR 0x9E, CHR 0xE6, CHR 0x8E, CHR 0xA5,
                    CHR 0xE6, CHR 0x88, CHR 0x90, CHR 0xE5, CHR 0x8A, CHR 0x9F]"

definition txt_empty_body :: string where
  "txt_empty_body = [CHR 0xE8, CHR 0xAF, CHR 0xB7, CHR 0xE6, CHR 0xB1, CHR 0x82,
                     CHR 0xE4, CHR 0xBD, CHR 0x93, CHR 0xE4, CHR 0xB8, CHR 0x8D,
                     CHR 0xE8, CHR 0x83, CHR 0xBD, CHR 0xE4, CHR 0xB8, CHR 0xBA,
                     CHR 0xE7, CHR 0xA9, CHR 0xBA]"

definition txt_sent :: string where
  "txt_sent = [CHR 0xE6, CHR 0xB6, CHR 0x88, CHR 0xE6, CHR 0x81, CHR 0xAF,
               CHR 0xE5, CHR 0x8F, CHR 0x91, CHR 0xE9, CHR 0x80, CHR 0x81,
               CHR 0xE6, CHR 0x88, CHR 0x90, CHR 0xE5, CHR 0x8A, CHR 0x9F]"

definition txt_internal_error :: string where
  "txt_internal_error = [CHR 0xE6, CHR 0x9C, CHR 0x8D, CHR 0xE5, CHR 0x8A, CHR 0xA1,
                         CHR 0xE5, CHR 0x99, CHR 0xA8, CHR 0xE5, CHR 0x86, CHR 0x85,
                         CHR 0xE9, CHR 0x83, CHR 0xA8, CHR 0xE9, CHR 0x94, CHR 0x99,
                         CHR 0xE8, CHR 0xAF, CHR 0xAF]"

subsection \<open>The WebSocket handlers (lines 29-81)\<close>

text \<open>
  A handler returns \<open>Inl e\<close> when it ends by an exception nobody catches, with
  the state as the exception left it.
\<close>

definition on_connection ::
  "host \<Rightarrow> conn \<Rightarrow> string option \<Rightarrow> world \<Rightarrow> (js_error + unit) \<times> world" where
  "on_connection H ws remoteAddress w =
     (let clientIp = (case remoteAddress of
                        None \<Rightarrow> ''unknown''
                      | Some a \<Rightarrow> if a = [] then ''unknown'' else a);
          w1 = console_log (LogNewConnection clientIp) w;
          w2 = w1\<lparr>clients := Set_add ws (clients w1)\<rparr>
      in case createTimestamp_now H w2 of
           (Inl e, w3) \<Rightarrow> (Inl e, w3)
         | (Inr welcomeTimestamp, w3) \<Rightarrow>
             ws_send ws
               (JSON_stringify
                  [(''type'', JStr ''welcome''),
                   (''message'', JStr txt_connected),
                   (''timestamp'', JStr (iso welcomeTimestamp)),
                   (''localTime'', JStr (local welcomeTimestamp)),
                   (''timezone'', JStr (tz_timezone (timezone welcomeTimestamp)))])
               w3)"

definition on_close :: "conn \<Rightarrow> world \<Rightarrow> (js_error + unit) \<times> world" where
  "on_close ws w =
     (let w1 = console_log LogClose w
      in (Inr (), w1\<lparr>clients := Set_delete ws (clients w1)\<rparr>))"

definition on_error :: "conn \<Rightarrow> world \<Rightarrow> (js_error + unit) \<times> world" where
  "on_error ws w =
     (let w1 = console_log LogError w
      in (Inr (), w1\<lparr>clients := Set_delete ws (clients w1)\<rparr>))"

definition on_message :: "host \<Rightarrow> conn \<Rightarrow> string \<Rightarrow> world \<Rightarrow> (js_error + unit) \<times> world" where
  "on_message H ws messageStr w =
     (if messageStr = ''ping'' then
        (case ws_send ws ''pong'' w of
           (Inl e, w1) \<Rightarrow> (Inl e, w1)
         | (Inr u, w1) \<Rightarrow> (Inr (), console_log LogPing w1))
      else if length messageStr < 100 \<and> \<not> startsWith messageStr CHR ''{''
              \<and> \<not> startsWith messageStr CHR ''[''
      then (Inr (), console_log (LogText messageStr) w)
      else (case JSON_parse H messageStr of
              Some data \<Rightarrow> (Inr (), console_log (LogJson data) w)
            | None \<Rightarrow> (Inr (), console_log (LogNonJson messageStr) w)))"

subsection \<open>\<^verbatim>\<open>broadcastMessage\<close> (lines 84-101)\<close>

text \<open>
  The body of \<^verbatim>\<open>clients.forEach\<close>: members are visited in insertion order; an
  exception raised by \<^verbatim>\<open>client.send\<close> leaves the loop.
\<close>

fun forEach_send :: "string \<Rightarrow> conn list \<Rightarrow> world \<Rightarrow> (js_error + unit) \<times> world" where
  "forEach_send messageStr [] w = (Inr (), w)"
| "forEach_send messageStr (client # rest) w =
     (if readyState (sockets w client) = OPEN then
        (case ws_send client messageStr w of
           (Inl e, w1) \<Rightarrow> (Inl e, w1)
         | (Inr u, w1) \<Rightarrow> forEach_send messageStr rest w1)
      else forEach_send messageStr rest w)"

definition envelope :: "json \<Rightarrow> timestamp \<Rightarrow> string" where
  "envelope message t =
     JSON_stringify
       [(''type'', JStr ''broadcast''),
        (''data'', message),
        (''timestamp'', JStr (iso t)),
        (''localTime'', JStr (local t)),
        (''timezone'', JStr (tz_timezone (timezone t)))]"

definition broadcastMessage :: "host \<Rightarrow> json \<Rightarrow> world \<Rightarrow> (js_error + unit) \<times> world" where
  "broadcastMessage H message w =
     (case createTimestamp_now H w of
        (Inl e, w1) \<Rightarrow> (Inl e, w1)
      | (Inr t, w1) \<Rightarrow>
          (case forEach_send (envelope message t) (clients w1) w1 of
             (Inl e, w2) \<Rightarrow> (Inl e, w2)
           | (Inr u, w2) \<Rightarrow>
               (Inr (), console_log (LogBroadcast (length (clients w2)) message) w2)))"

subsection \<open>\<^verbatim>\<open>POST /api/sendmsg\<close> (lines 106-137)\<close>

datatype response = Response (status: nat) (body: json)

text \<open>\<^verbatim>\<open>obj.key\<close>: the value of a property, \<^verbatim>\<open>undefined\<close> when there is none.\<close>

fun property :: "json \<Rightarrow> string \<Rightarrow> json" where
  "property (JObj ps) k = (case map_of ps k of Some v \<Rightarrow> v | None \<Rightarrow> JUndefined)"
| "property v k = JUndefined"

definition bad_request :: response where
  "bad_request = Response 400 (JObj [(''success'', JBool False), (''error'', JStr txt_empty_body)])"

definition internal_error :: response where
  "internal_error = Response 500 (JObj [(''success'', JBool False), (''error'', JStr txt_internal_error)])"

definition sendmsg :: "host \<Rightarrow> json \<Rightarrow> world \<Rightarrow> response \<times> world" where
  "sendmsg H messageData w =
     (if \<not> truthy messageData then (bad_request, w)
      else
        (case broadcastMessage H messageData w of
           (Inl e, w1) \<Rightarrow> (internal_error, console_log (LogSendmsgError e) w1)
         | (Inr u, w1) \<Rightarrow>
             (case createTimestamp_now H w1 of
                (Inl e, w2) \<Rightarrow> (internal_error, console_log (LogSendmsgError e) w2)
              | (Inr responseTimestamp, w2) \<Rightarrow>
                  (Response 200
                     (JObj [(''success'', JBool True),
                            (''message'', JStr txt_sent),
                            (''clientCount'', JNum (int (length (clients w2)))),
                            (''timestamp'', JStr (iso responseTimestamp)),
                            (''localTime'', JStr (local responseTimestamp)),
                            (''timezone'', JStr (tz_timezone (timezone responseTimestamp)))]),
                   w2))))"

subsection \<open>Runs of the process\<close>

text \<open>
  The events the process reacts to, each naming the handler it invokes. An
  exception that leaves a WebSocket handler is caught by nobody and ends the
  process; the request handler catches its own.
\<close>

datatype event =
    Connection conn "string option"
  | Close conn
  | ErrorEvent conn
  | Message conn string
  | SendMsg json

fun step :: "host \<Rightarrow> event \<Rightarrow> world \<Rightarrow> (js_error + unit) \<times> world" where
  "step H (Connection ws a) w = on_connection H ws a w"
| "step H (Close ws) w = on_close ws w"
| "step H (ErrorEvent ws) w = on_error ws w"
| "step H (Message ws m) w = on_message H ws m w"
| "step H (SendMsg b) w = (Inr (), snd (sendmsg H b w))"

text \<open>\<open>run H es w\<close>: the states after each handler that ran, in order.\<close>

fun run :: "host \<Rightarrow> event list \<Rightarrow> world \<Rightarrow> world list" where
  "run H [] w = []"
| "run H (e # es) w =
     (case step H e w of
        (Inl err, w1) \<Rightarrow> [w1]
      | (Inr u, w1) \<Rightarrow> w1 # run H es w1)"

text \<open>
  How often \<open>ws\<close> leaves the registry along a sequence of states: the number
  of adjacent states with \<open>ws\<close> a member of the first and not of the second.
\<close>

fun deregistrations :: "conn \<Rightarrow> world list \<Rightarrow> nat" where
  "deregistrations ws (w # w' # ws') =
     (if ws \<in> set (clients w) \<and> ws \<notin> set (clients w') then 1 else 0)
     + deregistrations ws (w' # ws')"
| "deregistrations ws ws' = 0"


section \<open>Sample hosts and states\<close>

definition sample_host :: host where
  "sample_host =
     \<lparr> env_TZ = None,
       clock = (\<lambda>n. 1700000000000 + int n),
       validTimeZone = (\<lambda>z. z = ''Asia/Shanghai'' \<or> z = ''UTC''),
       toISOString = (\<lambda>d. if d = 1700000000000 then ''2023-11-14T22:13:20.000Z'' else ''later''),
       localeText = (\<lambda>l z opts d. if d = 1700000000000 then ''2023/11/15 06:13:20 GMT+8'' else ''later''),
       Date_parse = (\<lambda>s. 0),
       Number_toString = (\<lambda>r. ''0''),
       JSON_parse = (\<lambda>s. None) \<rparr>"

definition open_socket :: socket where
  "open_socket = \<lparr> readyState = OPEN, writeFails = False, attempts = [], delivered = [] \<rparr>"

definition closed_socket :: socket where
  "closed_socket = \<lparr> readyState = CLOSED, writeFails = False, attempts = [], delivered = [] \<rparr>"

definition failing_socket :: socket where
  "failing_socket = \<lparr> readyState = OPEN, writeFails = True, attempts = [], delivered = [] \<rparr>"

text \<open>Connections 0 and 1 registered, both OPEN.\<close>

definition world_two_open :: world where
  "world_two_open =
     \<lparr> ticks = 0, clients = [0, 1], sockets = (\<lambda>c. open_socket), console = [] \<rparr>"

text \<open>Connections 0 and 1 registered; the transport of 1 is already CLOSED.\<close>

definition world_one_closed :: world where
  "world_one_closed =
     \<lparr> ticks = 0, clients = [0, 1],
       sockets = (\<lambda>c. if c = 1 then closed_socket else open_socket), console = [] \<rparr>"

text \<open>Connections 0, 1, 2 registered and OPEN; writes to the transport of 1 fail.\<close>

definition world_one_failing :: world where
  "world_one_failing =
     \<lparr> ticks = 0, clients = [0, 1, 2],
       sockets = (\<lambda>c. if c = 1 then failing_socket else open_socket), console = [] \<rparr>"

definition world_empty :: world where
  "world_empty = \<lparr> ticks = 0, clients = [], sockets = (\<lambda>c. closed_socket), console = [] \<rparr>"

definition sample_payload :: json where
  "sample_payload = JObj [(''msg'', JStr ''hi'')]"


section \<open>What each operation changes\<close>

subsection \<open>What the clock and the formatters touch\<close>

lemma new_Date_snd: "snd (new_Date H w) = w\<lparr>ticks := Suc (ticks w)\<rparr>"
  and new_Date_fst: "fst (new_Date H w) = clock H (ticks w)"
  by (simp_all add: new_Date_def)

lemma getTimezoneOffset_snd: "snd (getTimezoneOffset H tz w) = w\<lparr>ticks := Suc (ticks w)\<rparr>"
  by (simp add: getTimezoneOffset_def new_Date_def split: sum.splits)

lemma getTimezoneInfo_snd: "\<exists>n. snd (getTimezoneInfo H tz w) = w\<lparr>ticks := n\<rparr>"
proof -
  have a: "\<And>v r w'. getTimezoneOffset H tz v = (r, w') \<Longrightarrow> w' = v\<lparr>ticks := Suc (ticks v)\<rparr>"
    using getTimezoneOffset_snd by (metis snd_conv)
  show ?thesis
    by (auto simp: getTimezoneInfo_def new_Date_def split: prod.splits sum.splits dest!: a)
qed

lemma ticks_self: "\<exists>n. w = w\<lparr>ticks := n\<rparr>"
  by (rule exI [of _ "ticks w"]) simp

lemma createTimestamp_snd: "\<exists>n. snd (createTimestamp H d tz w) = w\<lparr>ticks := n\<rparr>"
proof -
  obtain n where "snd (getTimezoneInfo H tz w) = w\<lparr>ticks := n\<rparr>"
    using getTimezoneInfo_snd by blast
  then show ?thesis
    by (auto simp: createTimestamp_def ticks_self split: prod.splits sum.splits)
qed

lemma createTimestamp_now_snd: "\<exists>n. snd (createTimestamp_now H w) = w\<lparr>ticks := n\<rparr>"
proof -
  obtain n where "snd (createTimestamp H (clock H (ticks w)) (DEFAULT_TIMEZONE H) (w\<lparr>ticks := Suc (ticks w)\<rparr>))
      = w\<lparr>ticks := Suc (ticks w)\<rparr>\<lparr>ticks := n\<rparr>"
    using createTimestamp_snd by blast
  then show ?thesis
    by (auto simp: createTimestamp_now_def new_Date_def)
qed

lemma createTimestamp_now_frame [simp]:
  "clients (snd (createTimestamp_now H w)) = clients w"
  "sockets (snd (createTimestamp_now H w)) = sockets w"
  "console (snd (createTimestamp_now H w)) = console w"
  using createTimestamp_now_snd [of H w] by auto

text \<open>\<^verbatim>\<open>createTimestamp\<close> returns exactly when the runtime knows the time zone.\<close>

lemma createTimestamp_fst:
  "fst (createTimestamp H d tz w) =
     (if validTimeZone H tz
      then Inr \<lparr> iso = toISOString H d,
                 local = localeText H ''zh-CN'' tz NumericWithZoneName d,
                 compact = replace CHR ''T'' CHR '' '' (localeText H ''sv-SE'' tz TimeZoneOnly d),
                 unix = d div 1000, milliseconds = d,
                 timezone = fst (getTimezoneInfo H tz w) \<rparr>
      else Inl (RangeError (''Invalid time zone specified: '' @ tz)))"
  by (simp add: createTimestamp_def formatToLocal_def formatCompact_def formatToISO_def
      toLocaleString_def split: prod.splits)


subsection \<open>\<^verbatim>\<open>send\<close> and the loop of \<^verbatim>\<open>broadcastMessage\<close>\<close>

lemma ws_send_fst:
  "fst (ws_send c frame w) =
     (if readyState (sockets w c) = CONNECTING
      then Inl (Error ''WebSocket is not open: readyState 0 (CONNECTING)'')
      else Inr ())"
  by (simp add: ws_send_def Let_def)

lemma ws_send_frame [simp]:
  "clients (snd (ws_send c frame w)) = clients w"
  "ticks (snd (ws_send c frame w)) = ticks w"
  "console (snd (ws_send c frame w)) = console w"
  by (simp_all add: ws_send_def Let_def)

lemma ws_send_sockets:
  "sockets (snd (ws_send c frame w)) x =
     (if x = c
      then (sockets w c)\<lparr>attempts := attempts (sockets w c) @ [frame],
                          delivered := delivered (sockets w c)
                                       @ (if readyState (sockets w c) = OPEN
                                             \<and> \<not> writeFails (sockets w c)
                                          then [frame] else [])\<rparr>
      else sockets w x)"
  by (simp add: ws_send_def Let_def)

lemma ws_send_state [simp]:
  "readyState (sockets (snd (ws_send c frame w)) x) = readyState (sockets w x)"
  "writeFails (sockets (snd (ws_send c frame w)) x) = writeFails (sockets w x)"
  by (simp_all add: ws_send_sockets)

text \<open>
  The one-step unfolding of the loop: the guard lets \<^verbatim>\<open>send\<close> be called on
  OPEN sockets only, where it returns.
\<close>

lemma forEach_send_Cons:
  "forEach_send m (c # cs) w =
     (if readyState (sockets w c) = OPEN
      then forEach_send m cs (snd (ws_send c m w))
      else forEach_send m cs w)"
  by (simp add: ws_send_def Let_def)

lemma forEach_send_frame [simp]:
  "clients (snd (forEach_send m cs w)) = clients w"
  "ticks (snd (forEach_send m cs w)) = ticks w"
  "console (snd (forEach_send m cs w)) = console w"
  by (induction cs arbitrary: w) (simp_all add: forEach_send_Cons del: forEach_send.simps(2))

lemma forEach_send_state [simp]:
  "readyState (sockets (snd (forEach_send m cs w)) x) = readyState (sockets w x)"
  "writeFails (sockets (snd (forEach_send m cs w)) x) = writeFails (sockets w x)"
  by (induction cs arbitrary: w) (simp_all add: forEach_send_Cons del: forEach_send.simps(2))

text \<open>The loop always returns: no call it makes can raise.\<close>

lemma forEach_send_fst [simp]: "fst (forEach_send m cs w) = Inr ()"
  by (induction cs arbitrary: w) (simp_all add: forEach_send_Cons del: forEach_send.simps(2))

text \<open>
  What the loop does to one socket: an OPEN socket is sent the frame once for
  every time it occurs in the list, and the frame is delivered unless the
  write fails; any other socket is left as it is.
\<close>

lemma forEach_send_sockets:
  "sockets (snd (forEach_send m cs w)) x =
     (if readyState (sockets w x) = OPEN
      then (sockets w x)\<lparr>attempts := attempts (sockets w x) @ replicate (count_list cs x) m,
                           delivered := delivered (sockets w x)
                                        @ (if writeFails (sockets w x) then []
                                           else replicate (count_list cs x) m)\<rparr>
      else sockets w x)"
proof (induction cs arbitrary: w)
  case Nil
  show ?case by simp
next
  case (Cons c cs)
  show ?case
    by (simp add: forEach_send_Cons Cons.IH ws_send_sockets replicate_append_same
          del: forEach_send.simps(2))
qed


lemma createTimestamp_now_fst:
  "fst (createTimestamp_now H w) =
     (if validTimeZone H (DEFAULT_TIMEZONE H)
      then Inr \<lparr> iso = toISOString H (clock H (ticks w)),
                 local = localeText H ''zh-CN'' (DEFAULT_TIMEZONE H) NumericWithZoneName (clock H (ticks w)),
                 compact = replace CHR ''T'' CHR '' ''
                             (localeText H ''sv-SE'' (DEFAULT_TIMEZONE H) TimeZoneOnly (clock H (ticks w))),
                 unix = clock H (ticks w) div 1000, milliseconds = clock H (ticks w),
                 timezone = fst (getTimezoneInfo H (DEFAULT_TIMEZONE H) (w\<lparr>ticks := Suc (ticks w)\<rparr>)) \<rparr>
      else Inl (RangeError (''Invalid time zone specified: '' @ DEFAULT_TIMEZONE H)))"
  by (simp add: createTimestamp_now_def new_Date_def createTimestamp_fst)

lemma getTimezoneInfo_timezone:
  "tz_timezone (fst (getTimezoneInfo H tz w)) =
     (if validTimeZone H ''UTC'' \<and> validTimeZone H tz then tz else ''UTC'')"
  by (simp add: getTimezoneInfo_def getTimezoneOffset_def new_Date_def formatToLocal_def
      toLocaleString_def tz_fallback_def)

lemma getTimezoneInfo_error:
  "tz_error (fst (getTimezoneInfo H tz w)) =
     (if validTimeZone H ''UTC'' \<and> validTimeZone H tz then None
      else Some (''Invalid timezone: '' @ tz))"
  by (simp add: getTimezoneInfo_def getTimezoneOffset_def new_Date_def formatToLocal_def
      toLocaleString_def tz_fallback_def)


subsection \<open>\<^verbatim>\<open>broadcastMessage\<close> and the request handler, unfolded\<close>

lemma console_log_frame [simp]:
  "clients (console_log l w) = clients w"
  "sockets (console_log l w) = sockets w"
  "ticks (console_log l w) = ticks w"
  by (simp_all add: console_log_def)

lemma broadcastMessage_clients [simp]: "clients (snd (broadcastMessage H m w)) = clients w"
  by (simp add: broadcastMessage_def split_beta split: sum.splits)

lemma broadcastMessage_sockets:
  "sockets (snd (broadcastMessage H m w)) =
     (case fst (createTimestamp_now H w) of
        Inl e \<Rightarrow> sockets w
      | Inr t \<Rightarrow> sockets (snd (forEach_send (envelope m t) (clients w) (snd (createTimestamp_now H w)))))"
  by (simp add: broadcastMessage_def split_beta split: sum.splits)

lemma broadcastMessage_fst:
  "fst (broadcastMessage H m w) =
     (case fst (createTimestamp_now H w) of
        Inl e \<Rightarrow> Inl e
      | Inr t \<Rightarrow> fst (forEach_send (envelope m t) (clients w) (snd (createTimestamp_now H w))))"
  by (simp add: broadcastMessage_def split_beta split: sum.splits)

lemma sendmsg_clients [simp]: "clients (snd (sendmsg H b w)) = clients w"
  by (simp add: sendmsg_def split_beta split: sum.splits)

lemma sendmsg_sockets:
  "sockets (snd (sendmsg H b w)) =
     (if truthy b then sockets (snd (broadcastMessage H b w)) else sockets w)"
  by (simp add: sendmsg_def split_beta split: sum.splits)

lemma sendmsg_fst:
  "fst (sendmsg H b w) =
     (if \<not> truthy b then bad_request
      else case fst (broadcastMessage H b w) of
             Inl e \<Rightarrow> internal_error
           | Inr u \<Rightarrow>
               (case fst (createTimestamp_now H (snd (broadcastMessage H b w))) of
                  Inl e \<Rightarrow> internal_error
                | Inr t \<Rightarrow>
                    Response 200
                      (JObj [(''success'', JBool True),
                             (''message'', JStr txt_sent),
                             (''clientCount'', JNum (int (length (clients w)))),
                             (''timestamp'', JStr (iso t)),
                             (''localTime'', JStr (local t)),
                             (''timezone'', JStr (tz_timezone (timezone t)))])))"
  by (simp add: sendmsg_def split_beta split: sum.splits)


lemma count_list_distinct: "distinct cs \<Longrightarrow> count_list cs x \<le> 1"
  by (induction cs) auto

lemma envelope_explicit:
  assumes "fst (createTimestamp_now H w) = Inr t"
  shows "envelope m t =
     JSON_stringify
       [(''type'', JStr ''broadcast''),
        (''data'', m),
        (''timestamp'', JStr (toISOString H (clock H (ticks w)))),
        (''localTime'', JStr (localeText H ''zh-CN'' (DEFAULT_TIMEZONE H) NumericWithZoneName (clock H (ticks w)))),
        (''timezone'', JStr (if validTimeZone H ''UTC'' then DEFAULT_TIMEZONE H else ''UTC''))]"
proof (cases "validTimeZone H (DEFAULT_TIMEZONE H)")
  case True
  with assms show ?thesis
    by (auto simp: createTimestamp_now_fst envelope_def getTimezoneInfo_timezone)
next
  case False
  with assms show ?thesis by (simp add: createTimestamp_now_fst)
qed

lemma count_list_member: "distinct cs \<Longrightarrow> c \<in> set cs \<Longrightarrow> count_list cs c = 1"
  by (induction cs) auto

text \<open>What a broadcast does to one socket, for a registry without duplicates.\<close>

lemma broadcastMessage_socket:
  assumes "distinct (clients w)"
  shows "sockets (snd (broadcastMessage H m w)) c = sockets w c
       \<or> (\<exists>t j. fst (createTimestamp_now H w) = Inr t \<and> j \<le> 1
             \<and> c \<in> set (clients w) \<and> readyState (sockets w c) = OPEN
             \<and> sockets (snd (broadcastMessage H m w)) c =
                 (sockets w c)\<lparr>attempts := attempts (sockets w c) @ [envelope m t],
                               delivered := delivered (sockets w c) @ replicate j (envelope m t)\<rparr>)"
proof (cases "fst (createTimestamp_now H w)")
  case (Inl e)
  then show ?thesis by (simp add: broadcastMessage_sockets)
next
  case (Inr t)
  show ?thesis
  proof (cases "c \<in> set (clients w) \<and> readyState (sockets w c) = OPEN")
    case False
    then have "sockets (snd (broadcastMessage H m w)) c = sockets w c"
      by (auto simp: broadcastMessage_sockets Inr forEach_send_sockets)
    then show ?thesis ..
  next
    case True
    then have one: "count_list (clients w) c = 1"
      using assms by (simp add: count_list_member)
    have "sockets (snd (broadcastMessage H m w)) c =
            (sockets w c)\<lparr>attempts := attempts (sockets w c) @ [envelope m t],
                          delivered := delivered (sockets w c)
                             @ replicate (if writeFails (sockets w c) then 0 else 1) (envelope m t)\<rparr>"
      using True one by (simp add: broadcastMessage_sockets Inr forEach_send_sockets)
    then show ?thesis
      using True Inr by (intro disjI2 exI [of _ t] exI [of _ "if writeFails (sockets w c) then 0 else 1"]) simp
  qed
qed

text \<open>
  Claim C1. One call of \<^verbatim>\<open>broadcastMessage\<close> builds one frame: the serialised
  object with \<^verbatim>\<open>type\<close> "broadcast", the payload as \<^verbatim>\<open>data\<close>, and the ISO and
  local renderings of one reading of the clock, the first one the call makes.
  With a registry free of duplicates, every socket is either left with the
  frames it had, or has exactly that one frame appended, both to the frames
  passed to \<^verbatim>\<open>send\<close> and to the frames delivered. So all
  connections delivered to in one call receive the same text.
\<close>

theorem broadcastMessage_one_envelope:
  assumes "distinct (clients w)"
  shows "(let d = clock H (ticks w);
              frame = JSON_stringify
                        [(''type'', JStr ''broadcast''),
                         (''data'', m),
                         (''timestamp'', JStr (toISOString H d)),
                         (''localTime'',
                            JStr (localeText H ''zh-CN'' (DEFAULT_TIMEZONE H) NumericWithZoneName d)),
                         (''timezone'',
                            JStr (if validTimeZone H ''UTC'' then DEFAULT_TIMEZONE H else ''UTC''))];
              w' = snd (broadcastMessage H m w)
          in \<forall>c. (attempts (sockets w' c) = attempts (sockets w c)
                   \<or> attempts (sockets w' c) = attempts (sockets w c) @ [frame])
                \<and> (delivered (sockets w' c) = delivered (sockets w c)
                   \<or> delivered (sockets w' c) = delivered (sockets w c) @ [frame]))"
proof -
  have "(attempts (sockets (snd (broadcastMessage H m w)) c) = attempts (sockets w c)
          \<or> attempts (sockets (snd (broadcastMessage H m w)) c) = attempts (sockets w c) @ [f])
      \<and> (delivered (sockets (snd (broadcastMessage H m w)) c) = delivered (sockets w c)
          \<or> delivered (sockets (snd (broadcastMessage H m w)) c) = delivered (sockets w c) @ [f])"
    if f: "\<And>t. fst (createTimestamp_now H w) = Inr t \<Longrightarrow> envelope m t = f" for c f
  proof -
    from broadcastMessage_socket [OF assms, of H m c]
    show ?thesis
    proof
      assume "sockets (snd (broadcastMessage H m w)) c = sockets w c"
      then show ?thesis by simp
    next
      assume "\<exists>t j. fst (createTimestamp_now H w) = Inr t \<and> j \<le> 1
             \<and> c \<in> set (clients w) \<and> readyState (sockets w c) = OPEN
             \<and> sockets (snd (broadcastMessage H m w)) c =
                 (sockets w c)\<lparr>attempts := attempts (sockets w c) @ [envelope m t],
                               delivered := delivered (sockets w c) @ replicate j (envelope m t)\<rparr>"
      then obtain t j where t: "fst (createTimestamp_now H w) = Inr t" and j: "j \<le> 1"
        and s: "sockets (snd (broadcastMessage H m w)) c =
                 (sockets w c)\<lparr>attempts := attempts (sockets w c) @ [envelope m t],
                               delivered := delivered (sockets w c) @ replicate j (envelope m t)\<rparr>"
        by blast
      from j have "j = 0 \<or> j = 1" by auto
      then show ?thesis using s f [OF t] by auto
    qed
  qed
  then show ?thesis
    unfolding Let_def using envelope_explicit [of H w] by blast
qed

lemmas sample_eval =
  broadcastMessage_sockets broadcastMessage_fst sendmsg_sockets sendmsg_fst
  createTimestamp_now_fst getTimezoneInfo_timezone forEach_send_Cons ws_send_sockets
  envelope_def DEFAULT_TIMEZONE_def sample_host_def sample_payload_def
  open_socket_def closed_socket_def failing_socket_def
  bad_request_def internal_error_def

theorem broadcastMessage_one_envelope_witness:
  "distinct (clients world_two_open)
   \<and> delivered (sockets (snd (broadcastMessage sample_host sample_payload world_two_open)) 0)
       = [JSON_stringify
            [(''type'', JStr ''broadcast''),
             (''data'', JObj [(''msg'', JStr ''hi'')]),
             (''timestamp'', JStr ''2023-11-14T22:13:20.000Z''),
             (''localTime'', JStr ''2023/11/15 06:13:20 GMT+8''),
             (''timezone'', JStr ''Asia/Shanghai'')]]
   \<and> delivered (sockets (snd (broadcastMessage sample_host sample_payload world_two_open)) 1)
       = delivered (sockets (snd (broadcastMessage sample_host sample_payload world_two_open)) 0)"
  using broadcastMessage_one_envelope [of world_two_open sample_host sample_payload]
  by (simp add: Let_def sample_eval world_two_open_def del: forEach_send.simps(2))


lemma status_responses [simp]:
  "status bad_request = 400" "status internal_error = 500"
  by (simp_all add: bad_request_def internal_error_def)

text \<open>A success response carries the size of the registry, whatever was delivered.\<close>

lemma sendmsg_success_count:
  assumes "status (fst (sendmsg H b w)) = 200"
  shows "property (body (fst (sendmsg H b w))) ''clientCount'' = JNum (int (length (clients w)))"
  using assms by (auto simp: sendmsg_fst split: if_splits sum.splits)

text \<open>The request succeeds when the body is truthy and the time zone is known.\<close>

lemma sendmsg_success:
  assumes "truthy b" and "validTimeZone H (DEFAULT_TIMEZONE H)"
  shows "status (fst (sendmsg H b w)) = 200"
  using assms by (simp add: sendmsg_fst broadcastMessage_fst createTimestamp_now_fst)

text \<open>
  Claim C2. Whenever the request handler reports a count (a response with
  status 200), the count is the size of the registry the broadcast iterated
  over, and the registry is the same after the request; how many sockets
  were sent the frame or received it plays no part. With a truthy body and a
  time zone the runtime knows the request does succeed; in particular with an
  empty registry it succeeds with count 0.
\<close>

theorem sendmsg_clientCount:
  "(status (fst (sendmsg H b w)) = 200 \<longrightarrow>
       property (body (fst (sendmsg H b w))) ''clientCount'' = JNum (int (length (clients w)))
       \<and> clients (snd (sendmsg H b w)) = clients w)
   \<and> (truthy b \<and> validTimeZone H (DEFAULT_TIMEZONE H) \<longrightarrow>
       status (fst (sendmsg H b w)) = 200)
   \<and> (truthy b \<and> validTimeZone H (DEFAULT_TIMEZONE H) \<and> clients w = [] \<longrightarrow>
       status (fst (sendmsg H b w)) = 200
       \<and> property (body (fst (sendmsg H b w))) ''clientCount'' = JNum 0)"
proof (intro conjI impI)
  assume "status (fst (sendmsg H b w)) = 200"
  then show "property (body (fst (sendmsg H b w))) ''clientCount'' = JNum (int (length (clients w)))"
    by (rule sendmsg_success_count)
next
  show "clients (snd (sendmsg H b w)) = clients w" by simp
next
  assume "truthy b \<and> validTimeZone H (DEFAULT_TIMEZONE H)"
  then show "status (fst (sendmsg H b w)) = 200"
    using sendmsg_success by blast
next
  assume a: "truthy b \<and> validTimeZone H (DEFAULT_TIMEZONE H) \<and> clients w = []"
  then show s: "status (fst (sendmsg H b w)) = 200"
    using sendmsg_success [of b H w] by simp
  show "property (body (fst (sendmsg H b w))) ''clientCount'' = JNum 0"
    using sendmsg_success_count [OF s] a by simp
qed

theorem sendmsg_clientCount_witness:
  "status (fst (sendmsg sample_host sample_payload world_one_closed)) = 200
   \<and> property (body (fst (sendmsg sample_host sample_payload world_one_closed))) ''clientCount'' = JNum 2
   \<and> length (delivered (sockets (snd (sendmsg sample_host sample_payload world_one_closed)) 0)) = 1
   \<and> delivered (sockets (snd (sendmsg sample_host sample_payload world_one_closed)) 1) = []
   \<and> truthy sample_payload \<and> validTimeZone sample_host (DEFAULT_TIMEZONE sample_host)
   \<and> clients world_empty = []
   \<and> status (fst (sendmsg sample_host sample_payload world_empty)) = 200
   \<and> property (body (fst (sendmsg sample_host sample_payload world_empty))) ''clientCount'' = JNum 0"
  using sendmsg_clientCount [of sample_host sample_payload world_one_closed]
    sendmsg_clientCount [of sample_host sample_payload world_empty]
  by (simp add: sample_eval world_one_closed_def world_empty_def del: forEach_send.simps(2))

text \<open>
  Claim C10. In a request, \<^verbatim>\<open>send\<close> is called only on registered sockets
  whose \<^verbatim>\<open>readyState\<close> is OPEN: a socket in any other state is left exactly as
  it was, and a socket whose list of attempted frames changed is a registered
  OPEN one. The count of a success response is nevertheless the size of the
  whole registry, the members that are not OPEN included.
\<close>

theorem sendmsg_skips_non_open:
  "(let w' = snd (sendmsg H b w) in
      (\<forall>c. readyState (sockets w c) \<noteq> OPEN \<longrightarrow> sockets w' c = sockets w c)
    \<and> (\<forall>c. attempts (sockets w' c) \<noteq> attempts (sockets w c) \<longrightarrow>
            c \<in> set (clients w) \<and> readyState (sockets w c) = OPEN)
    \<and> (status (fst (sendmsg H b w)) = 200 \<longrightarrow>
          property (body (fst (sendmsg H b w))) ''clientCount''
            = JNum (int (length (filter (\<lambda>c. readyState (sockets w c) = OPEN) (clients w)))
                    + int (length (filter (\<lambda>c. readyState (sockets w c) \<noteq> OPEN) (clients w))))))"
proof -
  have unchanged: "sockets (snd (sendmsg H b w)) c = sockets w c"
    if "readyState (sockets w c) \<noteq> OPEN \<or> c \<notin> set (clients w)" for c
  proof (cases "truthy b")
    case False
    then show ?thesis by (simp add: sendmsg_sockets)
  next
    case True
    show ?thesis
    proof (cases "fst (createTimestamp_now H w)")
      case (Inl e)
      with True show ?thesis by (simp add: sendmsg_sockets broadcastMessage_sockets)
    next
      case (Inr t)
      have "count_list (clients w) c = 0 \<or> readyState (sockets w c) \<noteq> OPEN"
        using that by auto
      then show ?thesis
        using True Inr
        by (auto simp: sendmsg_sockets broadcastMessage_sockets forEach_send_sockets)
    qed
  qed
  have count: "int (length (clients w))
      = int (length (filter (\<lambda>c. readyState (sockets w c) = OPEN) (clients w)))
        + int (length (filter (\<lambda>c. readyState (sockets w c) \<noteq> OPEN) (clients w)))"
    using sum_length_filter_compl [of "\<lambda>c. readyState (sockets w c) = OPEN" "clients w"]
    by simp
  show ?thesis
    unfolding Let_def
  proof (intro conjI allI impI)
    fix c assume "readyState (sockets w c) \<noteq> OPEN"
    then show "sockets (snd (sendmsg H b w)) c = sockets w c" using unchanged by blast
  next
    fix c assume a: "attempts (sockets (snd (sendmsg H b w)) c) \<noteq> attempts (sockets w c)"
    show "c \<in> set (clients w)" using a unchanged [of c] by metis
    show "readyState (sockets w c) = OPEN" using a unchanged [of c] by metis
  next
    assume "status (fst (sendmsg H b w)) = 200"
    then show "property (body (fst (sendmsg H b w))) ''clientCount''
            = JNum (int (length (filter (\<lambda>c. readyState (sockets w c) = OPEN) (clients w)))
                    + int (length (filter (\<lambda>c. readyState (sockets w c) \<noteq> OPEN) (clients w))))"
      using sendmsg_success_count [of H b w] count by simp
  qed
qed

theorem sendmsg_skips_non_open_witness:
  "readyState (sockets world_one_closed 1) \<noteq> OPEN
   \<and> sockets (snd (sendmsg sample_host sample_payload world_one_closed)) 1 = sockets world_one_closed 1
   \<and> attempts (sockets (snd (sendmsg sample_host sample_payload world_one_closed)) 0)
       \<noteq> attempts (sockets world_one_closed 0)
   \<and> 0 \<in> set (clients world_one_closed) \<and> readyState (sockets world_one_closed 0) = OPEN
   \<and> status (fst (sendmsg sample_host sample_payload world_one_closed)) = 200
   \<and> property (body (fst (sendmsg sample_host sample_payload world_one_closed))) ''clientCount''
       = JNum 2"
  using sendmsg_skips_non_open [of sample_host sample_payload world_one_closed]
  by (simp add: Let_def sample_eval world_one_closed_def del: forEach_send.simps(2))


section \<open>Delivery failures\<close>

text \<open>
  Claim C3. Take a request with a truthy body whose envelope is built
  (\<^verbatim>\<open>createTimestamp\<close> returns \<open>t\<close>), on a registry without duplicates. A
  member can fail to receive the frame in two ways: its transport is not
  OPEN, or the write to its transport fails. Neither ends the loop or reaches
  the submitter: \<^verbatim>\<open>broadcastMessage\<close> returns normally, the response has
  status 200 with the size of the whole registry as its count, every OPEN
  member is sent the frame exactly once, and it is delivered to each of them
  whose write does not fail, whatever happens to the members visited before;
  a member that is not OPEN is left as it was.
\<close>

theorem broadcast_survives_delivery_failure:
  assumes "truthy b0" and "fst (createTimestamp_now H w) = Inr t" and "distinct (clients w)"
  shows "(let w' = snd (sendmsg H b0 w); frame = envelope b0 t in
      fst (broadcastMessage H b0 w) = Inr ()
    \<and> status (fst (sendmsg H b0 w)) = 200
    \<and> property (body (fst (sendmsg H b0 w))) ''clientCount'' = JNum (int (length (clients w)))
    \<and> (\<forall>c\<in>set (clients w).
          if readyState (sockets w c) = OPEN
          then attempts (sockets w' c) = attempts (sockets w c) @ [frame]
               \<and> delivered (sockets w' c)
                   = delivered (sockets w c) @ (if writeFails (sockets w c) then [] else [frame])
          else sockets w' c = sockets w c))"
proof -
  let ?m = "envelope b0 t"
  have valid: "validTimeZone H (DEFAULT_TIMEZONE H)"
    using assms(2) by (simp add: createTimestamp_now_fst split: if_splits)
  have r: "fst (broadcastMessage H b0 w) = Inr ()"
    using assms(2) by (simp add: broadcastMessage_fst)
  have s: "status (fst (sendmsg H b0 w)) = 200"
    using assms(1) valid by (rule sendmsg_success)
  have n: "property (body (fst (sendmsg H b0 w))) ''clientCount'' = JNum (int (length (clients w)))"
    using s by (rule sendmsg_success_count)
  have m: "\<forall>c\<in>set (clients w).
          if readyState (sockets w c) = OPEN
          then attempts (sockets (snd (sendmsg H b0 w)) c) = attempts (sockets w c) @ [?m]
               \<and> delivered (sockets (snd (sendmsg H b0 w)) c)
                   = delivered (sockets w c) @ (if writeFails (sockets w c) then [] else [?m])
          else sockets (snd (sendmsg H b0 w)) c = sockets w c"
  proof
    fix c assume "c \<in> set (clients w)"
    then have "count_list (clients w) c = 1"
      using assms(3) by (simp add: count_list_member)
    then show "if readyState (sockets w c) = OPEN
          then attempts (sockets (snd (sendmsg H b0 w)) c) = attempts (sockets w c) @ [?m]
               \<and> delivered (sockets (snd (sendmsg H b0 w)) c)
                   = delivered (sockets w c) @ (if writeFails (sockets w c) then [] else [?m])
          else sockets (snd (sendmsg H b0 w)) c = sockets w c"
      using assms(1,2)
      by (simp add: sendmsg_sockets broadcastMessage_sockets forEach_send_sockets)
  qed
  show ?thesis
    unfolding Let_def using r s n m by blast
qed

text \<open>
  The scenario of the specification: three connections, the write to the
  second fails; and a registry with a CLOSED member.
\<close>

theorem broadcast_survives_delivery_failure_witness:
  "truthy sample_payload
   \<and> (\<exists>t. fst (createTimestamp_now sample_host world_one_failing) = Inr t)
   \<and> distinct (clients world_one_failing)
   \<and> clients world_one_failing = [0, 1, 2]
   \<and> readyState (sockets world_one_failing 1) = OPEN \<and> writeFails (sockets world_one_failing 1)
   \<and> status (fst (sendmsg sample_host sample_payload world_one_failing)) = 200
   \<and> property (body (fst (sendmsg sample_host sample_payload world_one_failing))) ''clientCount''
       = JNum 3
   \<and> length (delivered (sockets (snd (sendmsg sample_host sample_payload world_one_failing)) 0)) = 1
   \<and> delivered (sockets (snd (sendmsg sample_host sample_payload world_one_failing)) 1) = []
   \<and> delivered (sockets (snd (sendmsg sample_host sample_payload world_one_failing)) 2)
       = delivered (sockets (snd (sendmsg sample_host sample_payload world_one_failing)) 0)
   \<and> status (fst (sendmsg sample_host sample_payload world_one_closed)) = 200
   \<and> length (delivered (sockets (snd (sendmsg sample_host sample_payload world_one_closed)) 0)) = 1
   \<and> sockets (snd (sendmsg sample_host sample_payload world_one_closed)) 1
       = sockets world_one_closed 1"
  using broadcast_survives_delivery_failure [of sample_payload sample_host world_one_failing]
    broadcast_survives_delivery_failure [of sample_payload sample_host world_one_closed]
  by (simp add: Let_def sample_eval world_one_failing_def world_one_closed_def
      del: forEach_send.simps(2))


section \<open>Rejected requests\<close>

lemma falsy_values:
  "(\<not> truthy b) = (b = JUndefined \<or> b = JNull \<or> b = JBool False \<or> b = JNum 0 \<or> b = JStr [])"
  by (cases b) auto

text \<open>
  Claim C4, as the code has it. The guard of the request handler is
  \<^verbatim>\<open>!messageData\<close>: a body that is falsy (undefined, that is missing; null;
  false; 0; the empty string) is answered with status 400 and nothing else
  happens, the state is the one before the request. Status 400 is given for no
  other body: an empty object or an empty array is truthy and is broadcast.
\<close>

theorem sendmsg_rejects_falsy_body:
  "(\<not> truthy b \<longrightarrow> sendmsg H b w = (bad_request, w) \<and> status bad_request = 400)
   \<and> (status (fst (sendmsg H b w)) = 400 \<longrightarrow> \<not> truthy b)
   \<and> ((\<not> truthy b) = (b = JUndefined \<or> b = JNull \<or> b = JBool False \<or> b = JNum 0 \<or> b = JStr []))"
proof (intro conjI impI)
  assume "\<not> truthy b"
  then show "sendmsg H b w = (bad_request, w)" by (simp add: sendmsg_def)
next
  show "status bad_request = 400" by simp
next
  assume "status (fst (sendmsg H b w)) = 400"
  then show "\<not> truthy b"
    by (auto simp: sendmsg_fst split: if_splits sum.splits)
next
  show "(\<not> truthy b) = (b = JUndefined \<or> b = JNull \<or> b = JBool False \<or> b = JNum 0 \<or> b = JStr [])"
    by (rule falsy_values)
qed

theorem sendmsg_rejects_falsy_body_witness:
  "\<not> truthy JUndefined
   \<and> sendmsg sample_host JUndefined world_two_open = (bad_request, world_two_open)
   \<and> \<not> truthy (JStr [])
   \<and> sendmsg sample_host (JStr []) world_two_open = (bad_request, world_two_open)
   \<and> status (fst (sendmsg sample_host JNull world_two_open)) = 400"
  using sendmsg_rejects_falsy_body [of JUndefined sample_host world_two_open]
    sendmsg_rejects_falsy_body [of "JStr []" sample_host world_two_open]
    sendmsg_rejects_falsy_body [of JNull sample_host world_two_open]
  by simp

text \<open>An empty JSON object as the body: the request succeeds and the envelope goes out.\<close>

theorem sendmsg_rejects_falsy_body_counterexample:
  "status (fst (sendmsg sample_host (JObj []) world_two_open)) = 200
   \<and> delivered (sockets (snd (sendmsg sample_host (JObj []) world_two_open)) 0)
       = [JSON_stringify
            [(''type'', JStr ''broadcast''),
             (''data'', JObj []),
             (''timestamp'', JStr ''2023-11-14T22:13:20.000Z''),
             (''localTime'', JStr ''2023/11/15 06:13:20 GMT+8''),
             (''timezone'', JStr ''Asia/Shanghai'')]]
   \<and> status (fst (sendmsg sample_host (JArr []) world_two_open)) = 200"
  by (simp add: sample_eval world_two_open_def del: forEach_send.simps(2))

section \<open>Time zones the runtime does not know\<close>

text \<open>
  Claim C5 at a label the runtime rejects. \<^verbatim>\<open>getTimezoneInfo\<close> falls back to
  the UTC record with its error text, but \<^verbatim>\<open>createTimestamp\<close> calls
  \<^verbatim>\<open>formatToLocal\<close> first, outside any \<^verbatim>\<open>try\<close>, and ends with the RangeError.
\<close>

theorem createTimestamp_unknown_timezone:
  "validTimeZone sample_host ''Mars/Olympus'' = False
   \<and> fst (createTimestamp sample_host 0 ''Mars/Olympus'' world_empty)
       = Inl (RangeError ''Invalid time zone specified: Mars/Olympus'')
   \<and> tz_timezone (fst (getTimezoneInfo sample_host ''Mars/Olympus'' world_empty)) = ''UTC''
   \<and> tz_error (fst (getTimezoneInfo sample_host ''Mars/Olympus'' world_empty))
       = Some ''Invalid timezone: Mars/Olympus''"
  by (simp add: createTimestamp_fst getTimezoneInfo_timezone getTimezoneInfo_error sample_host_def)

section \<open>Deregistration\<close>

lemma on_close_clients [simp]: "clients (snd (on_close ws w)) = Set_delete ws (clients w)"
  by (simp add: on_close_def Let_def)

lemma on_error_clients [simp]: "clients (snd (on_error ws w)) = Set_delete ws (clients w)"
  by (simp add: on_error_def Let_def)

lemma Set_delete_absent: "x \<notin> set xs \<Longrightarrow> Set_delete x xs = xs"
  by (simp add: Set_delete_def)

lemma set_Set_delete [simp]: "set (Set_delete x xs) = set xs - {x}"
  by (auto simp: Set_delete_def)

lemma Set_delete_twice [simp]: "Set_delete x (Set_delete x xs) = Set_delete x xs"
  by (simp add: Set_delete_def)

text \<open>
  Claim C8. Deregistering is \<^verbatim>\<open>clients.delete(ws)\<close>, in the close handler and
  in the error handler. For a connection that is not in the registry either
  handler returns normally and leaves the registry, and so its size, as it was;
  deleting twice is deleting once; after a deletion the connection is not a
  member and every other member still is.
\<close>

theorem deregister_idempotent:
  "(ws \<notin> set (clients w) \<longrightarrow>
       clients (snd (on_close ws w)) = clients w
       \<and> length (clients (snd (on_close ws w))) = length (clients w)
       \<and> fst (on_close ws w) = Inr ()
       \<and> clients (snd (on_error ws w)) = clients w
       \<and> length (clients (snd (on_error ws w))) = length (clients w)
       \<and> fst (on_error ws w) = Inr ())
   \<and> clients (snd (on_close ws (snd (on_close ws w)))) = clients (snd (on_close ws w))
   \<and> clients (snd (on_error ws (snd (on_error ws w)))) = clients (snd (on_error ws w))
   \<and> set (clients (snd (on_close ws w))) = set (clients w) - {ws}
   \<and> set (clients (snd (on_error ws w))) = set (clients w) - {ws}"
  by (simp add: Set_delete_absent) (simp add: on_close_def on_error_def Let_def)

theorem deregister_idempotent_witness:
  "5 \<notin> set (clients world_two_open)
   \<and> clients (snd (on_close 5 world_two_open)) = [0, 1]
   \<and> fst (on_close 5 world_two_open) = Inr ()
   \<and> clients (snd (on_error 5 world_two_open)) = [0, 1]
   \<and> clients (snd (on_close 1 world_two_open)) = [0]
   \<and> clients (snd (on_close 1 (snd (on_close 1 world_two_open)))) = [0]"
  using deregister_idempotent [of 5 world_two_open] deregister_idempotent [of 1 world_two_open]
  by (simp add: world_two_open_def Set_delete_def)

section \<open>Keepalive\<close>

text \<open>
  Claim C9. On a frame whose text is "ping" the message handler calls
  \<^verbatim>\<open>ws.send('pong')\<close> once on the connection the frame came from: that socket's
  attempted frames grow by exactly "pong", and on an OPEN socket so do its
  delivered frames unless the write fails. The handler returns normally
  unless the socket is still CONNECTING. No other socket changes, the
  registry is the same, and the clock is not read.
\<close>

theorem on_message_ping:
  "(let r = on_message H ws ''ping'' w; w' = snd r in
      attempts (sockets w' ws) = attempts (sockets w ws) @ [''pong'']
    \<and> delivered (sockets w' ws)
        = delivered (sockets w ws)
          @ (if readyState (sockets w ws) = OPEN \<and> \<not> writeFails (sockets w ws)
             then [''pong''] else [])
    \<and> readyState (sockets w' ws) = readyState (sockets w ws)
    \<and> (\<forall>c. c \<noteq> ws \<longrightarrow> sockets w' c = sockets w c)
    \<and> clients w' = clients w
    \<and> ticks w' = ticks w
    \<and> (fst r = Inr ()) = (readyState (sockets w ws) \<noteq> CONNECTING))"
  by (simp add: on_message_def Let_def split_beta ws_send_sockets ws_send_fst split: sum.splits)

theorem on_message_ping_witness:
  "attempts (sockets (snd (on_message sample_host 0 ''ping'' world_two_open)) 0) = [''pong'']
   \<and> delivered (sockets (snd (on_message sample_host 0 ''ping'' world_two_open)) 0) = [''pong'']
   \<and> (1::nat) \<noteq> 0
   \<and> sockets (snd (on_message sample_host 0 ''ping'' world_two_open)) 1 = sockets world_two_open 1
   \<and> clients (snd (on_message sample_host 0 ''ping'' world_two_open)) = [0, 1]
   \<and> ticks (snd (on_message sample_host 0 ''ping'' world_two_open)) = 0
   \<and> fst (on_message sample_host 0 ''ping'' world_two_open) = Inr ()"
  using on_message_ping [of sample_host 0 world_two_open]
  by (simp add: Let_def world_two_open_def open_socket_def)


section \<open>Close and error\<close>

lemma set_Set_add [simp]: "set (Set_add x xs) = insert x (set xs)"
  by (auto simp: Set_add_def)

lemma on_connection_clients [simp]:
  "clients (snd (on_connection H ws a w)) = Set_add ws (clients w)"
proof -
  let ?w2 = "(console_log (LogNewConnection (case a of None \<Rightarrow> ''unknown''
                | Some x \<Rightarrow> if x = [] then ''unknown'' else x)) w)
             \<lparr>clients := Set_add ws (clients w)\<rparr>"
  have "clients (snd (createTimestamp_now H ?w2)) = Set_add ws (clients w)" by simp
  then show ?thesis
    by (simp add: on_connection_def Let_def split_beta split: sum.splits)
qed

lemma on_message_clients [simp]: "clients (snd (on_message H ws m w)) = clients w"
  by (simp add: on_message_def split_beta split: sum.splits option.splits)

lemma step_clients:
  "clients (snd (step H e w)) =
     (case e of
        Connection x a \<Rightarrow> Set_add x (clients w)
      | Close x \<Rightarrow> Set_delete x (clients w)
      | ErrorEvent x \<Rightarrow> Set_delete x (clients w)
      | Message x m \<Rightarrow> clients w
      | SendMsg b \<Rightarrow> clients w)"
  by (cases e) simp_all

lemma step_absent:
  assumes "ws \<notin> set (clients w)" and "\<forall>a. e \<noteq> Connection ws a"
  shows "ws \<notin> set (clients (snd (step H e w)))"
  using assms by (cases e) (auto simp: step_clients)

lemma step_member:
  assumes "ws \<in> set (clients w)" and "e \<noteq> Close ws" and "e \<noteq> ErrorEvent ws"
  shows "ws \<in> set (clients (snd (step H e w)))"
  using assms by (cases e) (auto simp: step_clients)

lemma step_trigger:
  assumes "e = Close ws \<or> e = ErrorEvent ws"
  shows "ws \<notin> set (clients (snd (step H e w)))" and "\<exists>u. fst (step H e w) = Inr u"
  using assms by (auto simp: step_clients on_close_def on_error_def Let_def)

lemma run_Cons:
  "run H (e # es) w =
     (case fst (step H e w) of
        Inl err \<Rightarrow> [snd (step H e w)]
      | Inr u \<Rightarrow> snd (step H e w) # run H es (snd (step H e w)))"
  by (simp add: split_beta split: sum.splits)

lemma deregistrations_Cons:
  "deregistrations ws (w # w1 # rest) =
     (if ws \<in> set (clients w) \<and> ws \<notin> set (clients w1) then 1 else 0)
     + deregistrations ws (w1 # rest)"
  by simp

text \<open>The registry never holds a connection twice.\<close>

lemma step_distinct:
  assumes "distinct (clients w)"
  shows "distinct (clients (snd (step H e w)))"
  using assms by (cases e) (auto simp: step_clients Set_add_def Set_delete_def distinct_removeAll)

lemma run_distinct:
  assumes "distinct (clients w)"
  shows "\<forall>w' \<in> set (run H es w). distinct (clients w')"
  using assms
proof (induction es arbitrary: w)
  case Nil
  then show ?case by simp
next
  case (Cons e es)
  have d: "distinct (clients (snd (step H e w)))"
    using Cons.prems by (rule step_distinct)
  show ?case
    using d Cons.IH [OF d] by (cases "fst (step H e w)") (simp_all add: run_Cons del: run.simps(2))
qed

text \<open>Once out of the registry, a connection stays out: nothing is left to deregister.\<close>

lemma run_absent:
  assumes "ws \<notin> set (clients w)" and "\<forall>a. Connection ws a \<notin> set es"
  shows "deregistrations ws (w # run H es w) = 0
       \<and> ws \<notin> set (clients (last (w # run H es w)))"
  using assms
proof (induction es arbitrary: w)
  case Nil
  then show ?case by simp
next
  case (Cons e es)
  let ?w1 = "snd (step H e w)"
  have e: "\<forall>a. e \<noteq> Connection ws a" and es: "\<forall>a. Connection ws a \<notin> set es"
    using Cons.prems(2) by auto
  have out: "ws \<notin> set (clients ?w1)"
    using Cons.prems(1) e by (rule step_absent)
  note ih = Cons.IH [OF out es]
  show ?case
  proof (cases "fst (step H e w)")
    case (Inl err)
    then show ?thesis using Cons.prems(1) out by (simp add: run_Cons del: run.simps(2))
  next
    case (Inr u)
    then show ?thesis
      using Cons.prems(1) ih by (simp add: run_Cons del: run.simps(2))
  qed
qed

lemma run_at_most_once:
  assumes "\<forall>a. Connection ws a \<notin> set es"
  shows "deregistrations ws (w # run H es w) \<le> 1"
  using assms
proof (induction es arbitrary: w)
  case Nil
  then show ?case by simp
next
  case (Cons e es)
  let ?w1 = "snd (step H e w)"
  have es: "\<forall>a. Connection ws a \<notin> set es" using Cons.prems by auto
  note ih = Cons.IH [OF es, of ?w1]
  show ?case
  proof (cases "fst (step H e w)")
    case (Inl err)
    then show ?thesis by (simp add: run_Cons del: run.simps(2))
  next
    case (Inr u)
    show ?thesis
    proof (cases "ws \<in> set (clients w) \<and> ws \<notin> set (clients ?w1)")
      case True
      then have "deregistrations ws (?w1 # run H es ?w1) = 0"
        using run_absent [of ws ?w1 es H] es by simp
      with True Inr show ?thesis by (simp add: run_Cons del: run.simps(2))
    next
      case False
      with Inr ih show ?thesis by (auto simp add: run_Cons simp del: run.simps(2))
    qed
  qed
qed

lemma run_exactly_once:
  assumes "ws \<in> set (clients w)" and "\<forall>a. Connection ws a \<notin> set es"
    and "length (run H es w) = length es"
    and "Close ws \<in> set es \<or> ErrorEvent ws \<in> set es"
  shows "deregistrations ws (w # run H es w) = 1
       \<and> ws \<notin> set (clients (last (w # run H es w)))"
  using assms
proof (induction es arbitrary: w)
  case Nil
  then show ?case by simp
next
  case (Cons e es)
  let ?w1 = "snd (step H e w)"
  have es: "\<forall>a. Connection ws a \<notin> set es" using Cons.prems(2) by auto
  show ?case
  proof (cases "e = Close ws \<or> e = ErrorEvent ws")
    case True
    have out: "ws \<notin> set (clients ?w1)" using True by (rule step_trigger(1))
    obtain u where u: "fst (step H e w) = Inr u" using step_trigger(2) [OF True] by blast
    have "deregistrations ws (?w1 # run H es ?w1) = 0
       \<and> ws \<notin> set (clients (last (?w1 # run H es ?w1)))"
      using out es by (rule run_absent)
    then show ?thesis
      using Cons.prems(1) out u by (simp add: run_Cons del: run.simps(2))
  next
    case False
    then have mem: "ws \<in> set (clients ?w1)"
      using Cons.prems(1) by (auto intro: step_member)
    have later: "Close ws \<in> set es \<or> ErrorEvent ws \<in> set es"
      using Cons.prems(4) False by auto
    then have ne: "es \<noteq> []" by auto
    show ?thesis
    proof (cases "fst (step H e w)")
      case (Inl err)
      then have "length (run H (e # es) w) = 1" by (simp add: run_Cons del: run.simps(2))
      with Cons.prems(3) ne show ?thesis by simp
    next
      case (Inr u)
      then have len: "length (run H es ?w1) = length es"
        using Cons.prems(3) by (simp add: run_Cons del: run.simps(2))
      note ih = Cons.IH [OF mem es len later]
      then show ?thesis
        using Inr mem Cons.prems(1) by (simp add: run_Cons del: run.simps(2))
    qed
  qed
qed

text \<open>
  Which events move a connection out of the registry: the close and the error
  of that connection, and nothing else.
\<close>

lemma step_membership:
  assumes "\<forall>a. e \<noteq> Connection ws a"
  shows "(ws \<in> set (clients (snd (step H e w))))
       = (ws \<in> set (clients w) \<and> e \<noteq> Close ws \<and> e \<noteq> ErrorEvent ws)"
  using assms by (cases e) (auto simp: step_clients)

lemma run_membership:
  assumes "\<forall>a. Connection ws a \<notin> set es" and "i < length (run H es w)"
  shows "(ws \<in> set (clients (run H es w ! i)))
       = (ws \<in> set (clients w) \<and> (\<forall>j\<le>i. es ! j \<noteq> Close ws \<and> es ! j \<noteq> ErrorEvent ws))"
  using assms
proof (induction es arbitrary: w i)
  case Nil
  then show ?case by simp
next
  case (Cons e es)
  let ?w1 = "snd (step H e w)"
  have e: "\<forall>a. e \<noteq> Connection ws a" and es: "\<forall>a. Connection ws a \<notin> set es"
    using Cons.prems(1) by auto
  note first = step_membership [OF e, of H w]
  show ?case
  proof (cases i)
    case 0
    have "run H (e # es) w ! 0 = ?w1"
      by (cases "fst (step H e w)") (simp_all add: run_Cons del: run.simps(2))
    then show ?thesis using first 0 by simp
  next
    case (Suc k)
    show ?thesis
    proof (cases "fst (step H e w)")
      case (Inl err)
      then have "length (run H (e # es) w) = 1" by (simp add: run_Cons del: run.simps(2))
      with Cons.prems(2) Suc show ?thesis by simp
    next
      case (Inr u)
      then have r: "run H (e # es) w = ?w1 # run H es ?w1"
        by (simp add: run_Cons del: run.simps(2))
      then have k: "k < length (run H es ?w1)" using Cons.prems(2) Suc by simp
      have ih: "(ws \<in> set (clients (run H es ?w1 ! k)))
          = (ws \<in> set (clients ?w1) \<and> (\<forall>j\<le>k. es ! j \<noteq> Close ws \<and> es ! j \<noteq> ErrorEvent ws))"
        using es k by (rule Cons.IH)
      have all: "(\<forall>j\<le>Suc k. (e # es) ! j \<noteq> Close ws \<and> (e # es) ! j \<noteq> ErrorEvent ws)
          = ((e \<noteq> Close ws \<and> e \<noteq> ErrorEvent ws)
             \<and> (\<forall>j\<le>k. es ! j \<noteq> Close ws \<and> es ! j \<noteq> ErrorEvent ws))"
      proof
        assume h: "\<forall>j\<le>Suc k. (e # es) ! j \<noteq> Close ws \<and> (e # es) ! j \<noteq> ErrorEvent ws"
        have "e \<noteq> Close ws \<and> e \<noteq> ErrorEvent ws" using h [rule_format, of 0] by simp
        moreover have "\<forall>j\<le>k. es ! j \<noteq> Close ws \<and> es ! j \<noteq> ErrorEvent ws"
        proof (intro allI impI)
          fix j assume "j \<le> k"
          then show "es ! j \<noteq> Close ws \<and> es ! j \<noteq> ErrorEvent ws"
            using h [rule_format, of "Suc j"] by simp
        qed
        ultimately show "(e \<noteq> Close ws \<and> e \<noteq> ErrorEvent ws)
             \<and> (\<forall>j\<le>k. es ! j \<noteq> Close ws \<and> es ! j \<noteq> ErrorEvent ws)" ..
      next
        assume h: "(e \<noteq> Close ws \<and> e \<noteq> ErrorEvent ws)
             \<and> (\<forall>j\<le>k. es ! j \<noteq> Close ws \<and> es ! j \<noteq> ErrorEvent ws)"
        show "\<forall>j\<le>Suc k. (e # es) ! j \<noteq> Close ws \<and> (e # es) ! j \<noteq> ErrorEvent ws"
        proof (intro allI impI)
          fix j assume "j \<le> Suc k"
          then show "(e # es) ! j \<noteq> Close ws \<and> (e # es) ! j \<noteq> ErrorEvent ws"
            using h by (cases j) simp_all
        qed
      qed
      show ?thesis
        unfolding Suc r all using ih first by auto
    qed
  qed
qed

text \<open>
  Claim C7. Deregistration is the connection leaving the registry. It is
  triggered by the close or the error of that connection and by nothing else:
  any other event (short of a new connection event for \<open>ws\<close>) leaves the
  membership of \<open>ws\<close> as it was, and along a run of handlers without such a
  connection event, \<open>ws\<close> is registered after the event at position \<open>i\<close>
  exactly if it was registered at the start and no close or error of \<open>ws\<close>
  stands at a position up to \<open>i\<close>; so it leaves at the first of the two.
  It leaves at most once; if it is registered, every event of the run is
  dispatched and one of them is a close or an error of \<open>ws\<close>, it leaves
  exactly once. Both handlers call \<^verbatim>\<open>clients.delete(ws)\<close>: either one removes
  \<open>ws\<close>, and the other one, run afterwards, finds nothing to remove and
  leaves the registry as the first one left it.
\<close>

theorem deregistration_once:
  assumes "\<forall>a. Connection ws a \<notin> set es"
  shows "deregistrations ws (w # run H es w) \<le> 1
       \<and> (\<forall>i<length (run H es w).
             (ws \<in> set (clients (run H es w ! i)))
             = (ws \<in> set (clients w)
                \<and> (\<forall>j\<le>i. es ! j \<noteq> Close ws \<and> es ! j \<noteq> ErrorEvent ws)))
       \<and> (\<forall>e. e \<noteq> Close ws \<and> e \<noteq> ErrorEvent ws \<and> (\<forall>a. e \<noteq> Connection ws a) \<longrightarrow>
             (ws \<in> set (clients (snd (step H e w)))) = (ws \<in> set (clients w)))
       \<and> (ws \<in> set (clients w) \<and> length (run H es w) = length es
           \<and> (Close ws \<in> set es \<or> ErrorEvent ws \<in> set es) \<longrightarrow>
             deregistrations ws (w # run H es w) = 1
             \<and> ws \<notin> set (clients (last (w # run H es w))))
       \<and> ws \<notin> set (clients (snd (on_close ws w)))
       \<and> ws \<notin> set (clients (snd (on_error ws w)))
       \<and> clients (snd (on_error ws (snd (on_close ws w)))) = clients (snd (on_close ws w))
       \<and> clients (snd (on_close ws (snd (on_error ws w)))) = clients (snd (on_error ws w))"
proof (intro conjI)
  show "deregistrations ws (w # run H es w) \<le> 1"
    using assms by (rule run_at_most_once)
  show "\<forall>i<length (run H es w).
             (ws \<in> set (clients (run H es w ! i)))
             = (ws \<in> set (clients w)
                \<and> (\<forall>j\<le>i. es ! j \<noteq> Close ws \<and> es ! j \<noteq> ErrorEvent ws))"
    using run_membership [OF assms] by blast
  show "\<forall>e. e \<noteq> Close ws \<and> e \<noteq> ErrorEvent ws \<and> (\<forall>a. e \<noteq> Connection ws a) \<longrightarrow>
             (ws \<in> set (clients (snd (step H e w)))) = (ws \<in> set (clients w))"
    using step_membership by blast
  show "ws \<in> set (clients w) \<and> length (run H es w) = length es
           \<and> (Close ws \<in> set es \<or> ErrorEvent ws \<in> set es) \<longrightarrow>
             deregistrations ws (w # run H es w) = 1
             \<and> ws \<notin> set (clients (last (w # run H es w)))"
    using run_exactly_once [of ws w es H] assms by blast
qed simp_all

text \<open>
  Connection 1 has an error, then connection 0 pings, then connection 1
  closes: 1 is out of the registry from the error on.
\<close>

theorem deregistration_once_witness:
  "(\<forall>a. Connection 1 a \<notin> set [Message 1 ''x'', ErrorEvent 1, Message 0 ''ping'', Close 1])
   \<and> 1 \<in> set (clients world_two_open)
   \<and> length (run sample_host [Message 1 ''x'', ErrorEvent 1, Message 0 ''ping'', Close 1]
               world_two_open) = 4
   \<and> deregistrations 1
        (world_two_open
         # run sample_host [Message 1 ''x'', ErrorEvent 1, Message 0 ''ping'', Close 1]
             world_two_open)
       = 1
   \<and> map clients
        (run sample_host [Message 1 ''x'', ErrorEvent 1, Message 0 ''ping'', Close 1] world_two_open)
       = [[0, 1], [0], [0], [0]]
   \<and> clients (snd (on_close 1 (snd (on_error 1 world_two_open)))) = [0]"
  using deregistration_once
    [of 1 "[Message 1 ''x'', ErrorEvent 1, Message 0 ''ping'', Close 1]" world_two_open sample_host]
  by (simp add: world_two_open_def open_socket_def on_error_def on_close_def on_message_def
      ws_send_def console_log_def Set_delete_def Let_def startsWith_def)


lemma js_rem_nonneg: "0 \<le> a \<Longrightarrow> 0 < b \<Longrightarrow> js_rem a b = a mod b"
  by (simp add: js_rem_def sgn_if)

lemma uptime_split:
  fixes u :: int
  assumes "0 \<le> u"
  shows "(u div 86400000) * 86400000 + ((u mod 86400000) div 3600000) * 3600000
         + ((u mod 3600000) div 60000) * 60000 + ((u mod 60000) div 1000) * 1000 + u mod 1000 = u"
proof -
  have a: "u mod 86400000 mod 3600000 = u mod 3600000"
    by (rule mod_mod_cancel) simp
  have b: "u mod 3600000 mod 60000 = u mod 60000"
    by (rule mod_mod_cancel) simp
  have c: "u mod 60000 mod 1000 = u mod 1000"
    by (rule mod_mod_cancel) simp
  have "u = (u div 86400000) * 86400000 + u mod 86400000" by simp
  moreover have "u mod 86400000 = ((u mod 86400000) div 3600000) * 3600000 + u mod 3600000"
    using div_mult_mod_eq [of "u mod 86400000" 3600000] a by simp
  moreover have "u mod 3600000 = ((u mod 3600000) div 60000) * 60000 + u mod 60000"
    using div_mult_mod_eq [of "u mod 3600000" 60000] b by simp
  moreover have "u mod 60000 = ((u mod 60000) div 1000) * 1000 + u mod 1000"
    using div_mult_mod_eq [of "u mod 60000" 1000] c by simp
  ultimately show ?thesis by linarith
qed

lemma uptime_ranges:
  fixes u :: int
  assumes "0 \<le> u"
  shows "0 \<le> u div 86400000"
    and "0 \<le> u mod 86400000 div 3600000" and "u mod 86400000 div 3600000 < 24"
    and "0 \<le> u mod 3600000 div 60000" and "u mod 3600000 div 60000 < 60"
    and "0 \<le> u mod 60000 div 1000" and "u mod 60000 div 1000 < 60"
proof -
  show "0 \<le> u div 86400000" using assms by (simp add: pos_imp_zdiv_nonneg_iff)
  have a: "0 \<le> u mod 86400000" "u mod 86400000 < 86400000" by simp_all
  show "0 \<le> u mod 86400000 div 3600000" using a by (simp add: pos_imp_zdiv_nonneg_iff)
  show "u mod 86400000 div 3600000 < 24" using a by (simp add: div_less_iff_less_mult)
  have b: "0 \<le> u mod 3600000" "u mod 3600000 < 3600000" by simp_all
  show "0 \<le> u mod 3600000 div 60000" using b by (simp add: pos_imp_zdiv_nonneg_iff)
  show "u mod 3600000 div 60000 < 60" using b by (simp add: div_less_iff_less_mult)
  have c: "0 \<le> u mod 60000" "u mod 60000 < 60000" by simp_all
  show "0 \<le> u mod 60000 div 1000" using c by (simp add: pos_imp_zdiv_nonneg_iff)
  show "u mod 60000 div 1000 < 60" using c by (simp add: div_less_iff_less_mult)
qed

section \<open>Elapsed time\<close>

lemma date_diff_exact:
  "\<bar>endTime - startTime\<bar> \<le> 9007199254740992 \<Longrightarrow> date_diff endTime startTime = endTime - startTime"
  by (simp add: date_diff_def)

lemma date_diff_nonneg: "startTime \<le> endTime \<Longrightarrow> 0 \<le> date_diff endTime startTime"
  by (simp add: date_diff_def Let_def)

text \<open>
  Claim C6. For two Dates with start no later than end, the delta is the value
  of \<^verbatim>\<open>endTime - startTime\<close>, reported as \<open>total_milliseconds\<close>; it is the exact
  difference whenever that is at most 2 ^ 53 ms. The days, hours, minutes and
  seconds reported, obtained by successive integer division, add up to a
  number of milliseconds that is at most the delta and falls short of it by
  less than a second; adding the sub-second remainder of the delta gives the
  delta back exactly; hours, minutes and seconds stay below 24, 60 and 60. A
  difference of 7265432 ms is reported as 0 days, 2 hours, 1 minute, 5
  seconds.
\<close>

theorem calculateUptime_decomposition:
  assumes "valid_date startTime" and "valid_date endTime" and "startTime \<le> endTime"
  shows "(let u = calculateUptime startTime endTime;
              parts = days u * 86400000 + hours u * 3600000 + minutes u * 60000 + seconds u * 1000
          in total_milliseconds u = date_diff endTime startTime
             \<and> (endTime - startTime \<le> 9007199254740992 \<longrightarrow>
                  total_milliseconds u = endTime - startTime)
             \<and> 0 \<le> total_milliseconds u
             \<and> parts \<le> total_milliseconds u
             \<and> total_milliseconds u < parts + 1000
             \<and> parts + total_milliseconds u mod 1000 = total_milliseconds u
             \<and> 0 \<le> days u \<and> 0 \<le> hours u \<and> hours u < 24
             \<and> 0 \<le> minutes u \<and> minutes u < 60 \<and> 0 \<le> seconds u \<and> seconds u < 60
             \<and> (endTime - startTime = 7265432 \<longrightarrow>
                  days u = 0 \<and> hours u = 2 \<and> minutes u = 1 \<and> seconds u = 5
                  \<and> total_milliseconds u = 7265432))"
proof -
  define u where "u = date_diff endTime startTime"
  have u0: "0 \<le> u" using assms(3) by (simp add: u_def date_diff_nonneg)
  have split: "(u div 86400000) * 86400000 + ((u mod 86400000) div 3600000) * 3600000
         + ((u mod 3600000) div 60000) * 60000 + ((u mod 60000) div 1000) * 1000 + u mod 1000 = u"
    by (rule uptime_split [OF u0])
  have r: "0 \<le> u mod 1000" "u mod 1000 < 1000" by simp_all
  note rg = uptime_ranges [OF u0]
  have fields:
    "total_milliseconds (calculateUptime startTime endTime) = u"
    "days (calculateUptime startTime endTime) = u div 86400000"
    "hours (calculateUptime startTime endTime) = u mod 86400000 div 3600000"
    "minutes (calculateUptime startTime endTime) = u mod 3600000 div 60000"
    "seconds (calculateUptime startTime endTime) = u mod 60000 div 1000"
    using u0 by (simp_all add: calculateUptime_def Let_def js_rem_nonneg u_def [symmetric])
  have bounds: "\<And>p r. p + r = u \<Longrightarrow> 0 \<le> r \<Longrightarrow> r < 1000 \<Longrightarrow> p \<le> u \<and> u < p + (1000::int)"
    by linarith
  note lelt = bounds [OF split r]
  note le = lelt [THEN conjunct1] and lt = lelt [THEN conjunct2]
  have exact: "endTime - startTime \<le> 9007199254740992 \<longrightarrow> u = endTime - startTime"
    using assms(3) by (simp add: u_def date_diff_exact)
  have scen0: "u = 7265432 \<longrightarrow> u div 86400000 = 0 \<and> u mod 86400000 div 3600000 = 2
     \<and> u mod 3600000 div 60000 = 1 \<and> u mod 60000 div 1000 = 5 \<and> u = 7265432"
    by simp
  have "endTime - startTime = 7265432 \<longrightarrow> u = 7265432"
    by (simp add: u_def date_diff_exact)
  with scen0 have scen: "endTime - startTime = 7265432 \<longrightarrow> u div 86400000 = 0
     \<and> u mod 86400000 div 3600000 = 2
     \<and> u mod 3600000 div 60000 = 1 \<and> u mod 60000 div 1000 = 5 \<and> u = 7265432"
    by blast
  show ?thesis
    unfolding Let_def fields
    by (intro conjI u_def u0 exact le lt split rg scen)
qed

text \<open>
  The scenario of the specification, a status request 7265432 ms after the
  start; and the two Dates furthest apart, whose difference is rounded.
\<close>

theorem calculateUptime_decomposition_witness:
  "valid_date 1000 \<and> valid_date 7266432 \<and> (1000::int) \<le> 7266432
   \<and> days (calculateUptime 1000 7266432) = 0
   \<and> hours (calculateUptime 1000 7266432) = 2
   \<and> minutes (calculateUptime 1000 7266432) = 1
   \<and> seconds (calculateUptime 1000 7266432) = 5
   \<and> total_milliseconds (calculateUptime 1000 7266432) = 7265432
   \<and> valid_date (- 8640000000000000) \<and> valid_date 8639999999999999
   \<and> total_milliseconds (calculateUptime (- 8640000000000000) 8639999999999999)
       = 17280000000000000
   \<and> days (calculateUptime (- 8640000000000000) 8639999999999999) = 200000000
   \<and> hours (calculateUptime (- 8640000000000000) 8639999999999999) = 0"
proof -
  have d: "date_diff 8639999999999999 (- 8640000000000000) = 17280000000000000"
    by (simp add: date_diff_def)
  have e: "date_diff 7266432 1000 = 7265432"
    by (simp add: date_diff_def)
  have x: "total_milliseconds (calculateUptime (- 8640000000000000) 8639999999999999)
             = 17280000000000000"
    "days (calculateUptime (- 8640000000000000) 8639999999999999) = 200000000"
    "hours (calculateUptime (- 8640000000000000) 8639999999999999) = 0"
    by (simp_all add: calculateUptime_def Let_def d js_rem_def)
  have v: "valid_date 1000" "valid_date 7266432"
    "valid_date (- 8640000000000000)" "valid_date 8639999999999999"
    by (simp_all add: valid_date_def)
  have s: "days (calculateUptime 1000 7266432) = 0
   \<and> hours (calculateUptime 1000 7266432) = 2
   \<and> minutes (calculateUptime 1000 7266432) = 1
   \<and> seconds (calculateUptime 1000 7266432) = 5
   \<and> total_milliseconds (calculateUptime 1000 7266432) = 7265432"
    using calculateUptime_decomposition [OF v(1,2)] by (simp add: Let_def)
  show ?thesis
    using s x v by simp
qed


end
